theory Spec2Isabelle
  imports Main
begin

section \<open>Strings and numbers as the program sees them\<close>

text \<open>
  A string is a list of code units; the model covers the code units below 256, which is
  what \<^typ>\<open>char\<close> holds. \<open>trim\<close>, \<open>toLowerCase\<close>, \<open>includes\<close>, \<open>split(' ')\<close>,
  \<open>join(' ')\<close>, \<open>slice(0, n)\<close> and \<open>parseInt\<close> are the JavaScript built-ins that
  \<open>index.js\<close> calls, restricted to that range.
\<close>

definition is_ws :: "char \<Rightarrow> bool" where
  \<comment> \<open>white space and line terminators below 256: TAB, LF, VT, FF, CR, SP, NBSP\<close>
  "is_ws c = ((of_char c :: nat) \<in> {9, 10, 11, 12, 13, 32, 160})"

definition trim :: "string \<Rightarrow> string" where
  "trim s = rev (dropWhile is_ws (rev (dropWhile is_ws s)))"

definition lower_char :: "char \<Rightarrow> char" where
  \<comment> \<open>A-Z, and the Latin-1 capitals except the multiplication sign, move up by 32\<close>
  "lower_char c =
     (let n = (of_char c :: nat)
      in if (65 \<le> n \<and> n \<le> 90) \<or> (192 \<le> n \<and> n \<le> 222 \<and> n \<noteq> 215)
         then char_of (n + 32) else c)"

definition toLowerCase :: "string \<Rightarrow> string" where
  "toLowerCase s = map lower_char s"

fun starts_with :: "string \<Rightarrow> string \<Rightarrow> bool" where
  "starts_with s [] = True"
| "starts_with [] (p # ps) = False"
| "starts_with (c # cs) (p # ps) = (c = p \<and> starts_with cs ps)"

fun str_includes :: "string \<Rightarrow> string \<Rightarrow> bool" where
  "str_includes [] sub = starts_with [] sub"
| "str_includes (c # cs) sub = (starts_with (c # cs) sub \<or> str_includes cs sub)"

fun split_acc :: "string \<Rightarrow> string \<Rightarrow> string list" where
  \<comment> \<open>\<open>s.split(' ')\<close>: every single space ends a token, so two adjacent spaces give
      an empty token; the accumulator holds the current token reversed\<close>
  "split_acc acc [] = [rev acc]"
| "split_acc acc (c # cs) =
     (if c = CHR '' '' then rev acc # split_acc [] cs else split_acc (c # acc) cs)"

definition split_space :: "string \<Rightarrow> string list" where
  "split_space s = split_acc [] s"

fun join_space :: "string list \<Rightarrow> string" where
  "join_space [] = []"
| "join_space [x] = x"
| "join_space (x # y # ys) = x @ CHR '' '' # join_space (y # ys)"

definition slice0 :: "nat \<Rightarrow> string \<Rightarrow> string" where
  \<comment> \<open>\<open>s.slice(0, n)\<close>\<close>
  "slice0 n s = take n s"

text \<open>
  A JavaScript number that holds a port: an integer or NaN. \<open>parseInt\<close> yields the exact
  integer for every digit string whose value is below \<open>2^53\<close>; beyond that the program's
  number is the nearest double, which the model does not follow. \<open>-0\<close> is \<open>Num 0\<close>.
\<close>

datatype jsnum = Num int | NaN

definition digit_val :: "nat \<Rightarrow> char \<Rightarrow> nat option" where
  "digit_val radix c =
     (let n = (of_char c :: nat);
          v = (if 48 \<le> n \<and> n \<le> 57 then Some (n - 48)
               else if 97 \<le> n \<and> n \<le> 102 then Some (n - 87)
               else if 65 \<le> n \<and> n \<le> 70 then Some (n - 55)
               else None)
      in case v of None \<Rightarrow> None | Some d \<Rightarrow> if d < radix then Some d else None)"

fun digits_value :: "nat \<Rightarrow> nat \<Rightarrow> string \<Rightarrow> nat" where
  "digits_value radix acc [] = acc"
| "digits_value radix acc (c # cs) =
     (case digit_val radix c of
        None \<Rightarrow> acc
      | Some d \<Rightarrow> digits_value radix (acc * radix + d) cs)"

definition parseInt :: "string \<Rightarrow> jsnum" where
  \<comment> \<open>\<open>parseInt(s)\<close> with no radix: leading white space, one optional sign, an optional
      \<open>0x\<close>/\<open>0X\<close> prefix, then the longest run of digits; NaN when that run is empty\<close>
  "parseInt s =
     (let s1 = dropWhile is_ws s;
          neg = starts_with s1 ''-'';
          s2 = (if starts_with s1 ''-'' \<or> starts_with s1 ''+'' then tl s1 else s1);
          hex = (starts_with s2 ''0x'' \<or> starts_with s2 ''0X'');
          radix = (if hex then 16 else 10);
          s3 = (if hex then drop 2 s2 else s2);
          ds = takeWhile (\<lambda>c. digit_val radix c \<noteq> None) s3
      in if ds = [] then NaN
         else if neg then Num (- int (digits_value radix 0 ds))
         else Num (int (digits_value radix 0 ds)))"

text \<open>\<open>args[i]\<close>: \<open>None\<close> is \<open>undefined\<close>. A value is truthy when it is a non-empty string.\<close>

definition arg :: "string list \<Rightarrow> nat \<Rightarrow> string option" where
  "arg args i = (if i < length args then Some (args ! i) else None)"

definition truthy :: "string option \<Rightarrow> bool" where
  "truthy v = (case v of None \<Rightarrow> False | Some s \<Rightarrow> s \<noteq> [])"

section \<open>The controller, the agent client and the console\<close>

text \<open>
  \<open>BotController\<close> holds the six fields of its constructor. A bot handle is the number
  of the \<open>mineflayer.createBot\<close> call that made it. \<open>None\<close> is \<open>null\<close> or \<open>undefined\<close>.
\<close>

type_synonym handle = nat

record controller =
  bot :: "handle option"
  connected :: bool
  autoReconnect :: bool
  lastHost :: "string option"
  lastPort :: "jsnum option"
  lastVersion :: "string option"

text \<open>
  Everything the program does to the outside is recorded: a call of \<open>log(level, msg)\<close>
  with the message template and the values put into it, a call into the agent client or
  the movement planner, and the console output that bypasses \<open>log\<close>.
\<close>

datatype level = Info | Warn | Error | Success | Chat | Event

datatype msg =
    M_already_connected
  | M_usage_join
  | M_connecting "string option" "jsnum option" "string option"
  | M_connect_error string
  | M_spawned handle
  | M_chat string string
  | M_srv_msg string
  | M_kicked string
  | M_disconnected
  | M_reconnecting
  | M_no_bot_connected
  | M_disconnected_manually
  | M_auto_reconnect bool
  | M_bot_not_connected
  | M_usage_say
  | M_chat_signature
  | M_chat_failed string
  | M_not_connected
  | M_position handle
  | M_players_online
  | M_usage_query
  | M_usage_lookat
  | M_looking_at "string option" "string option" "string option"
  | M_look_failed string
  | M_usage_goto
  | M_moving_to "string option" "string option" "string option"
  | M_usage_autoreconnect
  | M_unknown_command string
  | M_command_failed string
  | M_unhandled_rejection string
  | M_uncaught_exception string

datatype call =
    CreateBot "string option" "jsnum option" "string option"
  | LoadPlugin handle
  | RemoveAllListeners handle
  | Quit handle
  | BotChat handle string
  | GetPosition handle
  | LookAt handle "string option" "string option" "string option"
  | SetGoal handle "string option" "string option" "string option"

datatype effect =
    Log level msg
  | Call call
  | Console_players "string list"
  | Console_clear
  | Console_help

text \<open>
  The agent client, the movement planner and \<open>Number\<close> are not code of this program.
  What they answer is a parameter of every operation: \<open>throws c\<close> is the message of the
  fault that call \<open>c\<close> raises, if it raises one; \<open>isFinite t\<close> is
  \<open>Number.isFinite(Number(t))\<close>, a coordinate being carried as the token it is read from.
\<close>

record env =
  throws :: "call \<Rightarrow> string option"
  isFinite :: "string \<Rightarrow> bool"
  players :: "handle \<Rightarrow> string list"
  username :: "handle \<Rightarrow> string"

datatype ename = On_spawn | On_chat | On_message | On_kicked | On_error | On_end

text \<open>
  The process: the controller, the listeners attached to each handle, the handles whose
  \<open>connect\<close> promise has been resolved, the pending \<open>setTimeout\<close> delays (oldest first;
  every timer of the program has the same callback and the same delay), what was done so
  far, and whether \<open>process.exit\<close> was called.
\<close>

record world =
  ctl :: controller
  subs :: "handle \<Rightarrow> ename set"
  resolved :: "handle set"
  next_handle :: handle
  timers :: "nat list"
  trace :: "effect list"
  exited :: bool

definition init :: world where
  "init = \<lparr> ctl = \<lparr> bot = None, connected = False, autoReconnect = False,
                     lastHost = None, lastPort = None, lastVersion = None \<rparr>,
            subs = (\<lambda>h. {}), resolved = {}, next_handle = 0, timers = [], trace = [],
            exited = False \<rparr>"

text \<open>
  How a call ends: it returns (an async function: its promise is resolved), it throws (an
  async function: its promise is rejected), or its promise waits for an event of a handle.
\<close>

datatype completion = Done | Threw string | Awaiting handle

definition log :: "level \<Rightarrow> msg \<Rightarrow> world \<Rightarrow> world" where
  "log l m w = w\<lparr>trace := trace w @ [Log l m]\<rparr>"

definition ext :: "env \<Rightarrow> call \<Rightarrow> world \<Rightarrow> string option \<times> world" where
  "ext e c w = (throws e c, w\<lparr>trace := trace w @ [Call c]\<rparr>)"

definition all_listeners :: "ename set" where
  "all_listeners = {On_spawn, On_chat, On_message, On_kicked, On_error, On_end}"

definition reconnect_delay :: nat where
  "reconnect_delay = 3000"

definition cleanup :: "env \<Rightarrow> world \<Rightarrow> completion \<times> world" where
  \<comment> \<open>the \<open>catch {}\<close> of \<open>removeAllListeners\<close> is the \<open>Some\<close> branch\<close>
  "cleanup e w =
     (let w1 = (case bot (ctl w) of
                  None \<Rightarrow> w
                | Some h \<Rightarrow>
                    (case ext e (RemoveAllListeners h) w of
                       (None, w') \<Rightarrow> w'\<lparr>subs := (subs w')(h := {})\<rparr>
                     | (Some err, w') \<Rightarrow> w'))
      in (Done, w1\<lparr>ctl := (ctl w1)\<lparr>connected := False, bot := None\<rparr>\<rparr>))"

definition connect ::
  "env \<Rightarrow> string option \<Rightarrow> jsnum option \<Rightarrow> string option \<Rightarrow> world \<Rightarrow> completion \<times> world" where
  \<comment> \<open>no caller passes \<open>undefined\<close> as the port, so the default of the parameter is
      never taken; a fault of \<open>createBot\<close> inside the promise executor rejects the promise\<close>
  "connect e host port version w =
     (if connected (ctl w) then (Done, log Error M_already_connected w)
      else if \<not> truthy host then (Done, log Warn M_usage_join w)
      else
        let w1 = w\<lparr>ctl := (ctl w)\<lparr>lastHost := host, lastPort := port,
                                     lastVersion := version\<rparr>\<rparr>;
            w2 = log Info (M_connecting host port version) w1
        in case ext e (CreateBot host port version) w2 of
             (Some err, w3) \<Rightarrow> (Threw err, w3)
           | (None, w3) \<Rightarrow>
               let h = next_handle w3;
                   w4 = w3\<lparr>next_handle := Suc h,
                          ctl := (ctl w3)\<lparr>bot := Some h, connected := False\<rparr>\<rparr>;
                   w5 = w4\<lparr>trace := trace w4 @ [Call (LoadPlugin h)]\<rparr>
               in (Awaiting h, w5\<lparr>subs := (subs w5)(h := all_listeners)\<rparr>))"

definition tryReconnect :: "world \<Rightarrow> completion \<times> world" where
  \<comment> \<open>the timer's callback reads \<open>lastHost\<close>, \<open>lastPort\<close>, \<open>lastVersion\<close> when it fires\<close>
  "tryReconnect w =
     (if autoReconnect (ctl w) \<and> truthy (lastHost (ctl w))
      then (Done, (log Info M_reconnecting w)\<lparr>timers := timers w @ [reconnect_delay]\<rparr>)
      else (Done, w))"

definition and_then ::
  "completion \<times> world \<Rightarrow> (world \<Rightarrow> completion \<times> world) \<Rightarrow> completion \<times> world" where
  \<comment> \<open>statement sequencing: the second statement runs when the first has returned\<close>
  "and_then r k = (case r of (Done, w) \<Rightarrow> k w | (c, w) \<Rightarrow> (c, w))"

definition disconnect :: "env \<Rightarrow> world \<Rightarrow> completion \<times> world" where
  "disconnect e w =
     (case bot (ctl w) of
        None \<Rightarrow> (Done, log Warn M_no_bot_connected w)
      | Some h \<Rightarrow>
          if \<not> connected (ctl w) then (Done, log Warn M_no_bot_connected w)
          else (case ext e (Quit h) w of
                  (Some err, w1) \<Rightarrow> (Threw err, w1)
                | (None, w1) \<Rightarrow>
                    and_then (cleanup e w1)
                      (\<lambda>w2. (Done, log Warn M_disconnected_manually w2))))"

definition setAutoReconnect :: "bool \<Rightarrow> world \<Rightarrow> completion \<times> world" where
  "setAutoReconnect flag w =
     (let w1 = w\<lparr>ctl := (ctl w)\<lparr>autoReconnect := flag\<rparr>\<rparr>
      in (Done, log Info (M_auto_reconnect (autoReconnect (ctl w1))) w1))"

definition say :: "env \<Rightarrow> string \<Rightarrow> world \<Rightarrow> completion \<times> world" where
  "say e message w =
     (case bot (ctl w) of
        None \<Rightarrow> (Done, log Warn M_bot_not_connected w)
      | Some h \<Rightarrow>
          if \<not> connected (ctl w) then (Done, log Warn M_bot_not_connected w)
          else if message = [] then (Done, log Warn M_usage_say w)
          else (case ext e (BotChat h (slice0 256 message)) w of
                  (None, w1) \<Rightarrow> (Done, w1)
                | (Some err, w1) \<Rightarrow>
                    if str_includes err ''signature''
                    then (Done, log Warn M_chat_signature w1)
                    else (Done, log Error (M_chat_failed err) w1)))"

definition exit_process :: "world \<Rightarrow> completion \<times> world" where
  \<comment> \<open>\<open>exit() { process.exit(0); }\<close>\<close>
  "exit_process w = (Done, w\<lparr>exited := True\<rparr>)"

definition query :: "env \<Rightarrow> string option \<Rightarrow> world \<Rightarrow> completion \<times> world" where
  "query e type w =
     (case bot (ctl w) of
        None \<Rightarrow> (Done, log Warn M_not_connected w)
      | Some h \<Rightarrow>
          if \<not> connected (ctl w) then (Done, log Warn M_not_connected w)
          else if type = Some ''position'' then
            (case ext e (GetPosition h) w of
               (Some err, w1) \<Rightarrow> (Threw err, w1)
             | (None, w1) \<Rightarrow> (Done, log Info (M_position h) w1))
          else if type = Some ''players'' then
            (let w1 = log Info M_players_online w
             in (Done, w1\<lparr>trace := trace w1 @ [Console_players (players e h)]\<rparr>))
          else (Done, log Warn M_usage_query w))"

definition finite_coord :: "env \<Rightarrow> string option \<Rightarrow> bool" where
  \<comment> \<open>\<open>Number.isFinite\<close> of a coordinate; a missing token is \<open>undefined\<close>\<close>
  "finite_coord e v = (case v of None \<Rightarrow> False | Some t \<Rightarrow> isFinite e t)"

definition lookAt ::
  "env \<Rightarrow> string option \<Rightarrow> string option \<Rightarrow> string option \<Rightarrow> world \<Rightarrow> completion \<times> world" where
  "lookAt e x y z w =
     (case bot (ctl w) of
        None \<Rightarrow> (Done, log Warn M_not_connected w)
      | Some h \<Rightarrow>
          if \<not> connected (ctl w) then (Done, log Warn M_not_connected w)
          else if \<not> (finite_coord e x \<and> finite_coord e y \<and> finite_coord e z)
          then (Done, log Warn M_usage_lookat w)
          else (case ext e (LookAt h x y z) w of
                  (None, w1) \<Rightarrow> (Done, log Success (M_looking_at x y z) w1)
                | (Some err, w1) \<Rightarrow> (Done, log Error (M_look_failed err) w1)))"

definition goto ::
  "env \<Rightarrow> string option \<Rightarrow> string option \<Rightarrow> string option \<Rightarrow> world \<Rightarrow> completion \<times> world" where
  \<comment> \<open>\<open>SetGoal\<close> stands for the four planner calls, none of them guarded\<close>
  "goto e x y z w =
     (case bot (ctl w) of
        None \<Rightarrow> (Done, log Warn M_not_connected w)
      | Some h \<Rightarrow>
          if \<not> connected (ctl w) then (Done, log Warn M_not_connected w)
          else if \<not> (finite_coord e x \<and> finite_coord e y \<and> finite_coord e z)
          then (Done, log Warn M_usage_goto w)
          else (case ext e (SetGoal h x y z) w of
                  (Some err, w1) \<Rightarrow> (Threw err, w1)
                | (None, w1) \<Rightarrow> (Done, log Info (M_moving_to x y z) w1)))"

section \<open>The process-wide guard\<close>

text \<open>
  What is thrown, or what a promise is rejected with, is any value: an \<open>Error\<close> with its
  message, \<open>null\<close>, \<open>undefined\<close>, or another value, which has no \<open>message\<close> property
  and is carried as the text \<open>util.inspect\<close> gives for it. Reading \<open>err.message\<close> yields
  the message of an \<open>Error\<close> and \<open>undefined\<close> for a value without one, and is itself a
  TypeError for \<open>null\<close> and \<open>undefined\<close>.
\<close>

datatype fault = Thrown_error string | Thrown_null | Thrown_undefined | Thrown_value string

definition type_error :: "string \<Rightarrow> string" where
  "type_error v =
     ''Cannot read properties of '' @ v @ '' (reading '' @ [CHR 0x27] @ ''message'' @
     [CHR 0x27] @ '')''"

definition message_of :: "fault \<Rightarrow> string + string" where
  \<comment> \<open>\<open>`${err.message}`\<close>: \<open>Inl\<close> is the message of the TypeError that the read raises\<close>
  "message_of f =
     (case f of
        Thrown_error m \<Rightarrow> Inr m
      | Thrown_null \<Rightarrow> Inl (type_error ''null'')
      | Thrown_undefined \<Rightarrow> Inl (type_error ''undefined'')
      | Thrown_value t \<Rightarrow> Inr ''undefined'')"

definition uncaughtException :: "fault \<Rightarrow> world \<Rightarrow> world" where
  \<comment> \<open>a fault raised inside this handler ends the process (exit code 7)\<close>
  "uncaughtException err w =
     (case message_of err of
        Inr m \<Rightarrow> log Error (M_uncaught_exception m) w
      | Inl te \<Rightarrow> w\<lparr>exited := True\<rparr>)"

definition unhandledRejection :: "fault \<Rightarrow> world \<Rightarrow> world" where
  \<comment> \<open>a fault raised inside this handler is an uncaught exception\<close>
  "unhandledRejection err w =
     (case message_of err of
        Inr m \<Rightarrow> log Error (M_unhandled_rejection m) w
      | Inl te \<Rightarrow> uncaughtException (Thrown_error te) w)"

section \<open>Events of a handle\<close>

text \<open>
  The listeners that \<open>connect\<close> attaches. Each one is a closure over the handle it was
  attached to and over \<open>resolve\<close> of that call's promise, and each one works on the fields
  of the controller as they are when the event arrives.
\<close>

datatype event =
    Spawn
  | ChatEv string string
  | Message string
  | Kicked string
  | ErrorEv fault
  | End

fun squash_run :: "bool \<Rightarrow> string \<Rightarrow> string" where
  \<comment> \<open>\<open>replace(/\\s+/g, ' ')\<close>; the flag says that a run of white space is being read\<close>
  "squash_run inrun [] = []"
| "squash_run inrun (c # cs) =
     (if is_ws c then (if inrun then squash_run True cs else CHR '' '' # squash_run True cs)
      else c # squash_run False cs)"

definition squash :: "string \<Rightarrow> string" where
  "squash s = squash_run False s"

definition on_spawn :: "handle \<Rightarrow> world \<Rightarrow> completion \<times> world" where
  "on_spawn h w =
     (let w1 = w\<lparr>ctl := (ctl w)\<lparr>connected := True\<rparr>\<rparr>;
          w2 = log Success (M_spawned h) w1
      in (Done, w2\<lparr>resolved := insert h (resolved w2)\<rparr>))"

definition on_chat :: "env \<Rightarrow> handle \<Rightarrow> string \<Rightarrow> string \<Rightarrow> world \<Rightarrow> completion \<times> world" where
  "on_chat e h user m w =
     (if user \<noteq> [] \<and> user \<noteq> username e h then (Done, log Chat (M_chat user m) w)
      else (Done, w))"

definition on_message :: "string \<Rightarrow> world \<Rightarrow> completion \<times> world" where
  "on_message m w = (Done, log Event (M_srv_msg (squash (trim m))) w)"

definition on_kicked :: "env \<Rightarrow> string \<Rightarrow> world \<Rightarrow> completion \<times> world" where
  "on_kicked e reason w =
     and_then (cleanup e (log Error (M_kicked reason) w)) tryReconnect"

definition handleError :: "env \<Rightarrow> handle \<Rightarrow> fault \<Rightarrow> world \<Rightarrow> completion \<times> world" where
  \<comment> \<open>\<open>err.message\<close> is read only when the flag is not set\<close>
  "handleError e h err w =
     (if \<not> connected (ctl w) then
        (case message_of err of
           Inl te \<Rightarrow> (Threw te, w)
         | Inr m \<Rightarrow>
             and_then (cleanup e (log Error (M_connect_error m) w))
               (\<lambda>w1. (Done, w1\<lparr>resolved := insert h (resolved w1)\<rparr>)))
      else and_then (cleanup e w) (\<lambda>w1. (Done, w1\<lparr>resolved := insert h (resolved w1)\<rparr>)))"

definition on_end :: "env \<Rightarrow> world \<Rightarrow> completion \<times> world" where
  "on_end e w =
     and_then (cleanup e (if connected (ctl w) then log Warn M_disconnected w else w))
       tryReconnect"

definition ename_of :: "event \<Rightarrow> ename" where
  "ename_of ev =
     (case ev of Spawn \<Rightarrow> On_spawn | ChatEv u m \<Rightarrow> On_chat | Message m \<Rightarrow> On_message
      | Kicked r \<Rightarrow> On_kicked | ErrorEv m \<Rightarrow> On_error | End \<Rightarrow> On_end)"

definition escaped :: "completion \<times> world \<Rightarrow> world" where
  \<comment> \<open>a fault that leaves a callback nobody guards reaches \<open>uncaughtException\<close>\<close>
  "escaped r =
     (case r of (Threw err, w) \<Rightarrow> uncaughtException (Thrown_error err) w | (c, w) \<Rightarrow> w)"

definition unhandled_error :: "fault \<Rightarrow> fault" where
  \<comment> \<open>what an emitter throws for an \<open>error\<close> event that no listener takes: the \<open>Error\<close>
      itself, or a new \<open>Error\<close> that quotes the value\<close>
  "unhandled_error f =
     (case f of
        Thrown_error m \<Rightarrow> Thrown_error m
      | Thrown_null \<Rightarrow> Thrown_error ''Unhandled error. (null)''
      | Thrown_undefined \<Rightarrow> Thrown_error ''Unhandled error. (undefined)''
      | Thrown_value t \<Rightarrow> Thrown_error (''Unhandled error. ('' @ t @ '')''))"

definition emit :: "env \<Rightarrow> handle \<Rightarrow> event \<Rightarrow> world \<Rightarrow> world" where
  \<comment> \<open>an event reaches the program through an attached listener; the \<open>spawn\<close>
      listener is attached with \<open>once\<close> and is detached before it runs; an \<open>error\<close> event
      without a listener is thrown by the emitter, out of the agent client's callback\<close>
  "emit e h ev w =
     (if ename_of ev \<notin> subs w h then
        (case ev of
           ErrorEv f \<Rightarrow> uncaughtException (unhandled_error f) w
         | _ \<Rightarrow> w)
      else case ev of
             Spawn \<Rightarrow> escaped (on_spawn h (w\<lparr>subs := (subs w)(h := subs w h - {On_spawn})\<rparr>))
           | ChatEv u m \<Rightarrow> escaped (on_chat e h u m w)
           | Message m \<Rightarrow> escaped (on_message m w)
           | Kicked r \<Rightarrow> escaped (on_kicked e r w)
           | ErrorEv f \<Rightarrow> escaped (handleError e h f w)
           | End \<Rightarrow> escaped (on_end e w))"

definition fire_timer :: "env \<Rightarrow> world \<Rightarrow> world" where
  \<comment> \<open>the callback of \<open>tryReconnect\<close>; nobody awaits the promise of its \<open>connect\<close>\<close>
  "fire_timer e w =
     (case timers w of
        [] \<Rightarrow> w
      | t # ts \<Rightarrow>
          (case connect e (lastHost (ctl w)) (lastPort (ctl w)) (lastVersion (ctl w))
                  (w\<lparr>timers := ts\<rparr>) of
             (Threw err, w1) \<Rightarrow> unhandledRejection (Thrown_error err) w1
           | (c, w1) \<Rightarrow> w1))"

section \<open>The command registry and the dispatcher\<close>

datatype command =
  Join | Leave | Exit | Clear | Say | Query | Lookat | Goto | Autoreconnect | Help

definition commands :: "(string \<times> command) list" where
  "commands =
     [(''join'', Join), (''leave'', Leave), (''exit'', Exit), (''clear'', Clear),
      (''say'', Say), (''query'', Query), (''lookat'', Lookat), (''goto'', Goto),
      (''autoreconnect'', Autoreconnect), (''help'', Help)]"

text \<open>
  \<open>commands[key]\<close> reads a property of an object literal, so a key that the literal does
  not have is looked up in \<open>Object.prototype\<close>. Of its properties only \<open>constructor\<close> (a
  function) and \<open>__proto__\<close> (an object that is not a function) have a name without a
  capital letter, which is what a lower-cased key can be equal to.
\<close>

datatype binding = Own command | Inherited_function | Inherited_object | Undefined

definition lookup_command :: "string \<Rightarrow> binding" where
  "lookup_command key =
     (case map_of commands key of
        Some c \<Rightarrow> Own c
      | None \<Rightarrow>
          if key = ''constructor'' then Inherited_function
          else if key = ''__proto__'' then Inherited_object
          else Undefined)"

definition join_target :: "string list \<Rightarrow> jsnum \<times> string option" where
  \<comment> \<open>lines 214 to 216 of \<open>index.js\<close>: the port and the version that \<open>join\<close> passes on\<close>
  "join_target args =
     (let pv = (case arg args 1 of
                  None \<Rightarrow> (Num 25565, None)
                | Some a \<Rightarrow>
                    if a = [] then (Num 25565, None)
                    else if str_includes a ''.'' then (Num 25565, Some a)
                    else (parseInt a, None))
      in if truthy (arg args 2) then (fst pv, arg args 2) else pv)"

definition cmd_join :: "env \<Rightarrow> string list \<Rightarrow> world \<Rightarrow> completion \<times> world" where
  "cmd_join e args w =
     (if \<not> truthy (arg args 0) then (Done, log Warn M_usage_join w)
      else connect e (arg args 0) (Some (fst (join_target args))) (snd (join_target args)) w)"

definition cmd_autoreconnect :: "string list \<Rightarrow> world \<Rightarrow> completion \<times> world" where
  "cmd_autoreconnect args w =
     (case arg args 0 of
        None \<Rightarrow> (Done, log Warn M_usage_autoreconnect w)
      | Some a \<Rightarrow>
          if a = [] then (Done, log Warn M_usage_autoreconnect w)
          else setAutoReconnect (toLowerCase a = ''true'') w)"

definition run_command :: "env \<Rightarrow> command \<Rightarrow> string list \<Rightarrow> world \<Rightarrow> completion \<times> world" where
  "run_command e c args w =
     (case c of
        Join \<Rightarrow> cmd_join e args w
      | Leave \<Rightarrow> disconnect e w
      | Exit \<Rightarrow> exit_process w
      | Clear \<Rightarrow> (Done, w\<lparr>trace := trace w @ [Console_clear]\<rparr>)
      | Say \<Rightarrow> say e (join_space args) w
      | Query \<Rightarrow> query e (arg args 0) w
      | Lookat \<Rightarrow> lookAt e (arg args 0) (arg args 1) (arg args 2) w
      | Goto \<Rightarrow> goto e (arg args 0) (arg args 1) (arg args 2) w
      | Autoreconnect \<Rightarrow> cmd_autoreconnect args w
      | Help \<Rightarrow> (Done, w\<lparr>trace := trace w @ [Console_help]\<rparr>))"

definition caught :: "completion \<times> world \<Rightarrow> completion \<times> world" where
  \<comment> \<open>\<open>try { await fn(args); } catch (e) { log('error', ...) }\<close>\<close>
  "caught r = (case r of (Threw err, w) \<Rightarrow> (Done, log Error (M_command_failed err) w)
                      | (c, w) \<Rightarrow> (c, w))"

definition tokens :: "string \<Rightarrow> string list" where
  "tokens input = split_space (trim input)"

definition handleCommand :: "env \<Rightarrow> string \<Rightarrow> world \<Rightarrow> completion \<times> world" where
  \<comment> \<open>calling the inherited function \<open>Object\<close> returns its argument; calling the
      inherited object is a TypeError, raised inside the \<open>try\<close>\<close>
  "handleCommand e input w =
     (case tokens input of
        [] \<Rightarrow> (Done, w)
      | cmd # args \<Rightarrow>
          if cmd = [] then (Done, w)
          else (case lookup_command (toLowerCase cmd) of
                  Undefined \<Rightarrow> (Done, log Warn (M_unknown_command cmd) w)
                | Own c \<Rightarrow> caught (run_command e c args w)
                | Inherited_function \<Rightarrow> caught (Done, w)
                | Inherited_object \<Rightarrow> caught (Threw ''fn is not a function'', w)))"

section \<open>The process as a sequence of steps\<close>

datatype step =
    Line string
  | Emit handle event
  | Timer
  | Rejection fault
  | Exception fault
  | Sigint

definition step :: "env \<Rightarrow> step \<Rightarrow> world \<Rightarrow> world" where
  "step e s w =
     (case s of
        Line l \<Rightarrow> snd (handleCommand e l w)
      | Emit h ev \<Rightarrow> emit e h ev w
      | Timer \<Rightarrow> fire_timer e w
      | Rejection err \<Rightarrow> unhandledRejection err w
      | Exception err \<Rightarrow> uncaughtException err w
      | Sigint \<Rightarrow>
          (case disconnect e w of
             (Threw err, w1) \<Rightarrow> uncaughtException (Thrown_error err) w1
           | (c, w1) \<Rightarrow> w1\<lparr>exited := True\<rparr>))"

fun run :: "env \<Rightarrow> step list \<Rightarrow> world \<Rightarrow> world" where
  \<comment> \<open>nothing runs after \<open>process.exit\<close>\<close>
  "run e [] w = w"
| "run e (s # ss) w = (if exited w then w else run e ss (step e s w))"

text \<open>
  The three states of the specification, read off the two fields the controller has.
\<close>

datatype conn_state = Disconnected | Connecting | Connected

definition state_of :: "controller \<Rightarrow> conn_state" where
  "state_of c =
     (if connected c then Connected
      else if bot c \<noteq> None then Connecting
      else Disconnected)"

definition quiet :: env where
  \<comment> \<open>an agent client none of whose calls raises\<close>
  "quiet = \<lparr> throws = (\<lambda>c. None), isFinite = (\<lambda>t. False), players = (\<lambda>h. []),
              username = (\<lambda>h. ''bot'') \<rparr>"

definition faulty :: env where
  \<comment> \<open>an agent client every call of which raises\<close>
  "faulty = \<lparr> throws = (\<lambda>c. Some ''boom''), isFinite = (\<lambda>t. False), players = (\<lambda>h. []),
               username = (\<lambda>h. ''bot'') \<rparr>"

section \<open>Reading a trace, and two reachable states\<close>

fun calls_of :: "effect list \<Rightarrow> call list" where
  "calls_of [] = []"
| "calls_of (Call c # es) = c # calls_of es"
| "calls_of (x # es) = calls_of es"

fun logged :: "level \<Rightarrow> effect list \<Rightarrow> msg list" where
  "logged l [] = []"
| "logged l (Log l' m # es) = (if l' = l then m # logged l es else logged l es)"
| "logged l (x # es) = logged l es"

definition connecting_example :: world where
  \<comment> \<open>a first \<open>connect\<close> has been called and no event has arrived yet\<close>
  "connecting_example = snd (connect quiet (Some ''a.example'') (Some (Num 25565)) None init)"

definition online_example :: world where
  \<comment> \<open>auto-reconnect switched on, a \<open>join\<close>, and the server has let the bot in\<close>
  "online_example =
     run quiet [Line ''autoreconnect true'', Line ''join a.example'', Emit 0 Spawn] init"

definition after_end ::
  "env \<Rightarrow> bool \<Rightarrow> string option \<Rightarrow> jsnum option \<Rightarrow> string option \<Rightarrow> world \<Rightarrow> world" where
  \<comment> \<open>the flag is set, \<open>connect\<close> is called, and its handle spawns and then ends\<close>
  "after_end e flag host port version w =
     run e [Emit (next_handle w) Spawn, Emit (next_handle w) End]
       (snd (connect e host port version (snd (setAutoReconnect flag w))))"

definition after_sign :: "string \<Rightarrow> string" where
  \<comment> \<open>what \<open>parseInt\<close> reads digits from: leading white space and one sign removed\<close>
  "after_sign s =
     (let s1 = dropWhile is_ws s
      in if starts_with s1 ''-'' \<or> starts_with s1 ''+'' then tl s1 else s1)"

definition no_leading_digit :: "string \<Rightarrow> bool" where
  "no_leading_digit s =
     (case after_sign s of [] \<Rightarrow> True | c # cs \<Rightarrow> digit_val 10 c = None)"

definition abandoned :: "handle \<Rightarrow> world \<Rightarrow> bool" where
  \<comment> \<open>a handle that exists, has no listener attached, and whose call is not resolved\<close>
  "abandoned h w = (subs w h = {} \<and> h < next_handle w \<and> h \<notin> resolved w)"

section \<open>Auxiliary facts\<close>

lemmas evaluation =
  init_def quiet_def connect_def log_def ext_def truthy_def all_listeners_def state_of_def emit_def
  on_spawn_def
  escaped_def ename_of_def step_def handleCommand_def tokens_def trim_def split_space_def
  is_ws_def toLowerCase_def lower_char_def lookup_command_def commands_def run_command_def
  cmd_autoreconnect_def arg_def setAutoReconnect_def caught_def cmd_join_def join_target_def
  parseInt_def digit_val_def

lemma calls_of_append: "calls_of (xs @ ys) = calls_of xs @ calls_of ys"
  by (induction xs rule: calls_of.induct) simp_all

lemma logged_append: "logged l (xs @ ys) = logged l xs @ logged l ys"
  by (induction l xs rule: logged.induct) simp_all

lemma connecting_example_eq:
  "connecting_example =
     \<lparr> ctl = \<lparr> bot = Some 0, connected = False, autoReconnect = False,
               lastHost = Some ''a.example'', lastPort = Some (Num 25565),
               lastVersion = None \<rparr>,
       subs = (\<lambda>h. {})(0 := all_listeners), resolved = {}, next_handle = 1, timers = [],
       trace = [Log Info (M_connecting (Some ''a.example'') (Some (Num 25565)) None),
                Call (CreateBot (Some ''a.example'') (Some (Num 25565)) None),
                Call (LoadPlugin 0)],
       exited = False \<rparr>"
  by (simp add: connecting_example_def init_def quiet_def connect_def log_def ext_def truthy_def)

lemma online_example_eq:
  "online_example =
     \<lparr> ctl = \<lparr> bot = Some 0, connected = True, autoReconnect = True,
               lastHost = Some ''a.example'', lastPort = Some (Num 25565),
               lastVersion = None \<rparr>,
       subs = (\<lambda>h. {})(0 := all_listeners - {On_spawn}), resolved = {0}, next_handle = 1,
       timers = [],
       trace = [Log Info (M_auto_reconnect True),
                Log Info (M_connecting (Some ''a.example'') (Some (Num 25565)) None),
                Call (CreateBot (Some ''a.example'') (Some (Num 25565)) None),
                Call (LoadPlugin 0), Log Success (M_spawned 0)],
       exited = False \<rparr>"
  by (simp add: online_example_def evaluation)

lemma lower_true: "toLowerCase ''TrUe'' = ''true''" "toLowerCase ''yes'' \<noteq> ''true''"
  "toLowerCase ''1'' \<noteq> ''true''" "toLowerCase ''on'' \<noteq> ''true''"
  by (simp_all add: toLowerCase_def lower_char_def char_of_def bit_simps)

lemma str_includes_dot: "str_includes a ''.'' \<longleftrightarrow> CHR ''.'' \<in> set a"
  by (induction a) (auto)

lemma parseInt_example: "parseInt ''25566'' = Num 25566"
  by (simp add: parseInt_def is_ws_def digit_val_def)

lemma digit_zero: "digit_val 10 (CHR ''0'') = Some 0"
  by (simp add: digit_val_def)

lemma parseInt_NaN: "no_leading_digit a \<Longrightarrow> parseInt a = NaN"
proof (cases "after_sign a")
  case Nil
  assume "no_leading_digit a"
  from Nil show ?thesis
    by (simp add: parseInt_def after_sign_def Let_def split: if_splits)
next
  case (Cons c cs)
  assume "no_leading_digit a"
  with Cons have nd: "digit_val 10 c = None"
    by (simp add: no_leading_digit_def)
  with digit_zero have "c \<noteq> CHR ''0''" by auto
  with Cons nd show ?thesis
    by (auto simp add: parseInt_def after_sign_def Let_def split: if_splits)
qed

lemma connect_last_port:
  "\<not> connected (ctl w) \<Longrightarrow> truthy host \<Longrightarrow>
     lastPort (ctl (snd (connect e host port version w))) = port \<and>
     logged Warn (trace (snd (connect e host port version w))) = logged Warn (trace w)"
  by (simp add: connect_def log_def ext_def logged_append Let_def split: option.splits)

lemma after_end_eq:
  assumes "\<not> connected (ctl w)" "\<not> exited w" "truthy host"
    "throws e (CreateBot host port version) = None"
  shows "after_end e flag host port version w =
     w\<lparr>ctl := (ctl w)\<lparr>bot := None, connected := False, autoReconnect := flag,
                       lastHost := host, lastPort := port, lastVersion := version\<rparr>,
        subs := (subs w)(next_handle w :=
                  (if throws e (RemoveAllListeners (next_handle w)) = None then {}
                   else all_listeners - {On_spawn})),
        resolved := insert (next_handle w) (resolved w),
        next_handle := Suc (next_handle w),
        timers := timers w @ (if flag then [reconnect_delay] else []),
        trace := trace w @
          [Log Info (M_auto_reconnect flag), Log Info (M_connecting host port version),
           Call (CreateBot host port version), Call (LoadPlugin (next_handle w)),
           Log Success (M_spawned (next_handle w)), Log Warn M_disconnected,
           Call (RemoveAllListeners (next_handle w))] @
          (if flag then [Log Info M_reconnecting] else [])\<rparr>"
proof (cases "throws e (RemoveAllListeners (next_handle w))")
  case None
  with assms show ?thesis
    by (simp add: after_end_def setAutoReconnect_def connect_def log_def ext_def Let_def
        step_def emit_def ename_of_def all_listeners_def on_spawn_def escaped_def on_end_def
        cleanup_def and_then_def tryReconnect_def)
next
  case (Some err)
  with assms show ?thesis
    by (simp add: after_end_def setAutoReconnect_def connect_def log_def ext_def Let_def
        step_def emit_def ename_of_def all_listeners_def on_spawn_def escaped_def on_end_def
        cleanup_def and_then_def tryReconnect_def)
qed














section \<open>connect while a connection exists\<close>

text \<open>
  C1, as the code has it: in every state whose \<open>connected\<close> flag is set, \<open>connect\<close>
  returns at once, leaves the last target, the flag, the handle and everything else of
  the process as they are, and logs exactly one entry, the error "already connected".
  The guard reads the flag only, so a state that is still connecting is not covered.
\<close>

theorem connect_when_connected:
  "connected (ctl w) \<Longrightarrow>
     connect e host port version w =
       (Done, w\<lparr>trace := trace w @ [Log Error M_already_connected]\<rparr>)"
  by (simp add: connect_def log_def)

theorem connect_when_connected_witness:
  "connected (ctl online_example) \<and>
   connect quiet (Some ''b.example'') (Some (Num 25565)) None online_example =
     (Done, online_example\<lparr>trace := trace online_example @ [Log Error M_already_connected]\<rparr>)"
  using connect_when_connected
    [of online_example quiet "Some ''b.example''" "Some (Num 25565)" None]
  by (simp add: online_example_eq)

text \<open>
  While the first attempt is still connecting, a second \<open>connect\<close> records the new
  target, replaces the handle and logs no error.
\<close>

theorem connect_while_connecting_counterexample:
  "state_of (ctl connecting_example) = Connecting \<and>
   lastHost (ctl connecting_example) = Some ''a.example'' \<and>
   bot (ctl connecting_example) = Some 0 \<and>
   lastHost (ctl (snd (connect quiet (Some ''b.example'') (Some (Num 25565)) None
                         connecting_example))) = Some ''b.example'' \<and>
   bot (ctl (snd (connect quiet (Some ''b.example'') (Some (Num 25565)) None
                    connecting_example))) = Some 1 \<and>
   logged Error (trace (snd (connect quiet (Some ''b.example'') (Some (Num 25565)) None
                               connecting_example))) = []"
  by (simp add: connecting_example_eq quiet_def connect_def log_def ext_def truthy_def
      state_of_def)

section \<open>The guard\<close>

lemma guard_logs_message:
  "step e (Rejection (Thrown_error m)) w =
     w\<lparr>trace := trace w @ [Log Error (M_unhandled_rejection m)]\<rparr> \<and>
   step e (Exception (Thrown_error m)) w =
     w\<lparr>trace := trace w @ [Log Error (M_uncaught_exception m)]\<rparr>"
  by (simp add: step_def unhandledRejection_def uncaughtException_def message_of_def log_def)

text \<open>
  C3 asks the guard to run \<open>cleanup\<close> and then \<open>tryReconnect\<close> when the controller is
  connected, to say that there is nothing to recover when it is not, and to keep the
  process alive. The guard of \<open>index.js\<close> does this instead: for an \<open>Error\<close> that reaches
  it while the controller is connected with auto-reconnect on, it logs one error entry
  and leaves the flag set, the handle held and no timer pending, where \<open>cleanup\<close> and
  \<open>tryReconnect\<close> would have cleared the flag and scheduled a reconnect; for an \<open>Error\<close>
  that reaches it while the controller is not connected, it logs that one entry and no
  other; a thrown \<open>null\<close> makes the guard itself raise, which ends the process; and a
  rejection with \<open>undefined\<close> is logged as an uncaught exception with the message of
  the guard's own TypeError.
\<close>

theorem guard_leaves_connection:
  "connected (ctl online_example) \<and> autoReconnect (ctl online_example) \<and>
   step quiet (Exception (Thrown_error ''boom'')) online_example =
     online_example\<lparr>trace := trace online_example @
                                 [Log Error (M_uncaught_exception ''boom'')]\<rparr> \<and>
   connected (ctl (step quiet (Exception (Thrown_error ''boom'')) online_example)) \<and>
   bot (ctl (step quiet (Exception (Thrown_error ''boom'')) online_example)) = Some 0 \<and>
   timers (step quiet (Exception (Thrown_error ''boom'')) online_example) = [] \<and>
   \<not> connected (ctl (snd (and_then (cleanup quiet online_example) tryReconnect))) \<and>
   timers (snd (and_then (cleanup quiet online_example) tryReconnect)) = [reconnect_delay] \<and>
   trace (step quiet (Rejection (Thrown_error ''boom'')) init) =
     [Log Error (M_unhandled_rejection ''boom'')] \<and>
   exited (step quiet (Exception Thrown_null) online_example) \<and>
   trace (step quiet (Rejection Thrown_undefined) init) =
     [Log Error (M_uncaught_exception (type_error ''undefined''))]"
  by (simp add: online_example_eq step_def uncaughtException_def unhandledRejection_def
      message_of_def log_def cleanup_def ext_def quiet_def init_def and_then_def
      tryReconnect_def truthy_def)

section \<open>say\<close>

text \<open>
  C5: in a connected state (flag set, handle held) and for a non-empty message, \<open>say\<close>
  makes exactly one transmission, of the first 256 code units of the message, so of a
  value of length at most 256. When the controller is not connected or the message is
  empty, \<open>say\<close> makes no call into the agent client and logs exactly one warning.
\<close>

theorem say_truncates:
  "(connected (ctl w) \<and> bot (ctl w) = Some h \<and> message \<noteq> [] \<longrightarrow>
      calls_of (trace (snd (say e message w))) =
        calls_of (trace w) @ [BotChat h (slice0 256 message)] \<and>
      length (slice0 256 message) \<le> 256) \<and>
   (\<not> connected (ctl w) \<or> bot (ctl w) = None \<or> message = [] \<longrightarrow>
      calls_of (trace (snd (say e message w))) = calls_of (trace w) \<and>
      (\<exists>m. say e message w = (Done, w\<lparr>trace := trace w @ [Log Warn m]\<rparr>)))"
  by (auto simp add: say_def log_def ext_def slice0_def calls_of_append
      split: option.splits prod.splits)

theorem say_truncates_witness:
  "connected (ctl online_example) \<and> bot (ctl online_example) = Some 0 \<and>
   replicate 300 (CHR ''a'') \<noteq> [] \<and>
   calls_of (trace (snd (say quiet (replicate 300 (CHR ''a'')) online_example))) =
     calls_of (trace online_example) @ [BotChat 0 (replicate 256 (CHR ''a''))] \<and>
   \<not> connected (ctl init) \<and>
   calls_of (trace (snd (say quiet ''hello'' init))) = calls_of (trace init)"
  using say_truncates [of online_example 0 "replicate 300 (CHR ''a'')" quiet]
    say_truncates [of init 0 "''hello''" quiet]
  by (simp add: online_example_eq slice0_def init_def)

section \<open>cleanup\<close>

text \<open>
  C7: \<open>cleanup\<close> returns normally whatever \<open>removeAllListeners\<close> does, also when it
  raises; a second \<open>cleanup\<close> right after the first changes nothing at all; after
  \<open>cleanup\<close> the controller is disconnected and holds no handle, and the handle it held
  has no listener left when detaching them did not raise.
\<close>

theorem cleanup_idempotent:
  "fst (cleanup e w) = Done \<and>
   cleanup e' (snd (cleanup e w)) = (Done, snd (cleanup e w)) \<and>
   state_of (ctl (snd (cleanup e w))) = Disconnected \<and>
   bot (ctl (snd (cleanup e w))) = None \<and>
   (bot (ctl w) = Some h \<and> throws e (RemoveAllListeners h) = None \<longrightarrow>
      subs (snd (cleanup e w)) h = {})"
  by (simp add: cleanup_def ext_def state_of_def split: option.splits)

theorem cleanup_idempotent_witness:
  "bot (ctl online_example) = Some 0 \<and> throws quiet (RemoveAllListeners 0) = None \<and>
   subs (snd (cleanup quiet online_example)) 0 = {} \<and>
   cleanup quiet (snd (cleanup quiet online_example)) =
     (Done, snd (cleanup quiet online_example)) \<and>
   throws faulty (RemoveAllListeners 0) = Some ''boom'' \<and>
   fst (cleanup faulty online_example) = Done \<and>
   state_of (ctl (snd (cleanup faulty online_example))) = Disconnected \<and>
   cleanup faulty (snd (cleanup faulty online_example)) =
     (Done, snd (cleanup faulty online_example))"
  using cleanup_idempotent [of quiet online_example quiet 0]
    cleanup_idempotent [of faulty online_example faulty 0]
  by (simp add: online_example_eq quiet_def faulty_def)

section \<open>Reconnecting after the connection ends\<close>

text \<open>
  C4: from a state that is not connected, after \<open>setAutoReconnect(flag)\<close> and a
  \<open>connect\<close> whose handle spawns, the \<open>end\<close> event of that handle leaves the controller
  disconnected with the target of that \<open>connect\<close> as last target, and schedules exactly
  one timer of 3000 ms when the flag is true and none when it is false. When no other
  timer is pending, the scheduled timer calls \<open>createBot\<close> with that same target.
\<close>

theorem end_schedules_one_reconnect:
  assumes "\<not> connected (ctl w)" and "\<not> exited w" and "truthy host"
    and "throws e (CreateBot host port version) = None"
  shows "fst (connect e host port version (snd (setAutoReconnect flag w))) =
           Awaiting (next_handle w) \<and>
         connected (ctl (emit e (next_handle w) Spawn
            (snd (connect e host port version (snd (setAutoReconnect flag w)))))) \<and>
         timers (after_end e flag host port version w) =
           timers w @ (if flag then [reconnect_delay] else []) \<and>
         reconnect_delay = 3000 \<and>
         state_of (ctl (after_end e flag host port version w)) = Disconnected \<and>
         lastHost (ctl (after_end e flag host port version w)) = host \<and>
         lastPort (ctl (after_end e flag host port version w)) = port \<and>
         lastVersion (ctl (after_end e flag host port version w)) = version \<and>
         (flag \<and> timers w = [] \<longrightarrow>
            timers (fire_timer e (after_end e flag host port version w)) = [] \<and>
            calls_of (trace (fire_timer e (after_end e flag host port version w))) =
              calls_of (trace (after_end e flag host port version w)) @
                [CreateBot host port version, LoadPlugin (Suc (next_handle w))])"
proof -
  note ae = after_end_eq [OF assms, of flag]
  have c1: "fst (connect e host port version (snd (setAutoReconnect flag w))) =
           Awaiting (next_handle w)"
    using assms by (simp add: setAutoReconnect_def connect_def log_def ext_def Let_def)
  have c2: "connected (ctl (emit e (next_handle w) Spawn
            (snd (connect e host port version (snd (setAutoReconnect flag w))))))"
    using assms
    by (simp add: setAutoReconnect_def connect_def log_def ext_def Let_def emit_def
        ename_of_def all_listeners_def on_spawn_def escaped_def)
  have c3: "flag \<and> timers w = [] \<longrightarrow>
            timers (fire_timer e (after_end e flag host port version w)) = [] \<and>
            calls_of (trace (fire_timer e (after_end e flag host port version w))) =
              calls_of (trace (after_end e flag host port version w)) @
                [CreateBot host port version, LoadPlugin (Suc (next_handle w))]"
    unfolding ae using assms
    by (simp add: fire_timer_def connect_def log_def ext_def Let_def calls_of_append)
  show ?thesis
    unfolding ae using c1 c2 c3 [unfolded ae]
    by (simp add: state_of_def reconnect_delay_def)
qed

theorem end_schedules_one_reconnect_witness:
  "\<not> connected (ctl init) \<and> \<not> exited init \<and> truthy (Some ''a.example'') \<and>
   throws quiet (CreateBot (Some ''a.example'') (Some (Num 25565)) (Some ''1.20.1'')) = None \<and>
   timers (after_end quiet True (Some ''a.example'') (Some (Num 25565)) (Some ''1.20.1'') init)
     = [3000] \<and>
   timers (after_end quiet False (Some ''a.example'') (Some (Num 25565)) (Some ''1.20.1'') init)
     = [] \<and>
   calls_of (trace (fire_timer quiet
      (after_end quiet True (Some ''a.example'') (Some (Num 25565)) (Some ''1.20.1'') init))) =
     [CreateBot (Some ''a.example'') (Some (Num 25565)) (Some ''1.20.1''), LoadPlugin 0,
      RemoveAllListeners 0,
      CreateBot (Some ''a.example'') (Some (Num 25565)) (Some ''1.20.1''), LoadPlugin 1]"
proof -
  have h: "\<not> connected (ctl init)" "\<not> exited init" "truthy (Some ''a.example'')"
    "throws quiet (CreateBot (Some ''a.example'') (Some (Num 25565)) (Some ''1.20.1'')) = None"
    by (simp_all add: init_def truthy_def quiet_def)
  have t: "timers init = []" "next_handle init = 0"
    by (simp_all add: init_def)
  have tr: "calls_of (trace
      (after_end quiet True (Some ''a.example'') (Some (Num 25565)) (Some ''1.20.1'') init)) =
     [CreateBot (Some ''a.example'') (Some (Num 25565)) (Some ''1.20.1''), LoadPlugin 0,
      RemoveAllListeners 0]"
    unfolding after_end_eq [OF h] by (simp add: init_def)
  show ?thesis
    using end_schedules_one_reconnect [OF h, of True]
      end_schedules_one_reconnect [OF h, of False] h t tr
    by simp
qed

section \<open>The join command\<close>

text \<open>
  C6: \<open>join host 1.20.1\<close> connects with version 1.20.1 and the default port 25565, and
  \<open>join host 25566 1.20.1\<close> with port 25566 and version 1.20.1. In general a second
  token (a non-empty one) is the version when it contains a dot and is otherwise parsed
  as the port, and a third token (a non-empty one) is the version whatever the second
  one was.
\<close>

theorem join_tokens:
  "(a \<noteq> [] \<and> \<not> truthy (arg rest 0) \<longrightarrow>
      cmd_join e (h # a # rest) w =
        (if h = [] then (Done, log Warn M_usage_join w)
         else if CHR ''.'' \<in> set a then connect e (Some h) (Some (Num 25565)) (Some a) w
         else connect e (Some h) (Some (parseInt a)) None w)) \<and>
   (a \<noteq> [] \<and> v \<noteq> [] \<longrightarrow>
      cmd_join e (h # a # v # rest') w =
        (if h = [] then (Done, log Warn M_usage_join w)
         else if CHR ''.'' \<in> set a then connect e (Some h) (Some (Num 25565)) (Some v) w
         else connect e (Some h) (Some (parseInt a)) (Some v) w)) \<and>
   (let w1 = snd (handleCommand quiet ''join host 1.20.1'' init) in
      lastHost (ctl w1) = Some ''host'' \<and> lastPort (ctl w1) = Some (Num 25565) \<and>
      lastVersion (ctl w1) = Some ''1.20.1'' \<and>
      calls_of (trace w1) = [CreateBot (Some ''host'') (Some (Num 25565)) (Some ''1.20.1''), LoadPlugin 0]) \<and>
   (let w2 = snd (handleCommand quiet ''join host 25566 1.20.1'' init) in
      lastHost (ctl w2) = Some ''host'' \<and> lastPort (ctl w2) = Some (Num 25566) \<and>
      lastVersion (ctl w2) = Some ''1.20.1'' \<and>
      calls_of (trace w2) = [CreateBot (Some ''host'') (Some (Num 25566)) (Some ''1.20.1''), LoadPlugin 0])"
proof -
  have general1: "a \<noteq> [] \<and> \<not> truthy (arg rest 0) \<longrightarrow>
      cmd_join e (h # a # rest) w =
        (if h = [] then (Done, log Warn M_usage_join w)
         else if CHR ''.'' \<in> set a then connect e (Some h) (Some (Num 25565)) (Some a) w
         else connect e (Some h) (Some (parseInt a)) None w)"
    by (auto simp add: cmd_join_def join_target_def arg_def truthy_def str_includes_dot
        split: option.splits if_splits)
  have general2: "a \<noteq> [] \<and> v \<noteq> [] \<longrightarrow>
      cmd_join e (h # a # v # rest') w =
        (if h = [] then (Done, log Warn M_usage_join w)
         else if CHR ''.'' \<in> set a then connect e (Some h) (Some (Num 25565)) (Some v) w
         else connect e (Some h) (Some (parseInt a)) (Some v) w)"
    by (auto simp add: cmd_join_def join_target_def arg_def truthy_def str_includes_dot
        split: option.splits if_splits)
  have ex1: "snd (handleCommand quiet ''join host 1.20.1'' init) =
      init\<lparr>ctl := (ctl init)\<lparr>bot := Some 0, lastHost := Some ''host'', lastPort := Some (Num 25565),
                lastVersion := Some ''1.20.1''\<rparr>,
           subs := (\<lambda>h. {})(0 := all_listeners), next_handle := 1,
           trace := [Log Info (M_connecting (Some ''host'') (Some (Num 25565)) (Some ''1.20.1'')),
                     Call (CreateBot (Some ''host'') (Some (Num 25565)) (Some ''1.20.1'')),
                     Call (LoadPlugin 0)]\<rparr>"
    by (simp add: evaluation)
  have ex2: "snd (handleCommand quiet ''join host 25566 1.20.1'' init) =
      init\<lparr>ctl := (ctl init)\<lparr>bot := Some 0, lastHost := Some ''host'', lastPort := Some (Num 25566),
                lastVersion := Some ''1.20.1''\<rparr>,
           subs := (\<lambda>h. {})(0 := all_listeners), next_handle := 1,
           trace := [Log Info (M_connecting (Some ''host'') (Some (Num 25566)) (Some ''1.20.1'')),
                     Call (CreateBot (Some ''host'') (Some (Num 25566)) (Some ''1.20.1'')),
                     Call (LoadPlugin 0)]\<rparr>"
    by (simp add: evaluation)
  show ?thesis
    unfolding Let_def ex1 ex2 using general1 general2 by (simp add: init_def)
qed

theorem join_tokens_witness:
  "''25566'' \<noteq> [] \<and> \<not> truthy (arg [] 0) \<and> CHR ''.'' \<notin> set ''25566'' \<and>
   cmd_join quiet [''host'', ''25566''] init =
     connect quiet (Some ''host'') (Some (Num 25566)) None init \<and>
   ''1.20.1'' \<noteq> [] \<and> ''1.8.9'' \<noteq> [] \<and> CHR ''.'' \<in> set ''1.20.1'' \<and>
   cmd_join quiet [''host'', ''1.20.1'', ''1.8.9''] init =
     connect quiet (Some ''host'') (Some (Num 25565)) (Some ''1.8.9'') init"
  using join_tokens [where a = "''25566''" and rest = "[]" and e = quiet and h = "''host''"
      and w = init and v = "''x''" and rest' = "[]"]
    join_tokens [where a = "''1.20.1''" and rest = "[]" and e = quiet and h = "''host''"
      and w = init and v = "''1.8.9''" and rest' = "[]"]
  by (simp add: arg_def truthy_def parseInt_example)

text \<open>
  C10, as the code has it: when the second token of \<open>join\<close> is not empty, contains no
  dot and, after leading white space and one optional sign, does not start with a digit
  (as in \<open>join host abc\<close>), the integer parse yields NaN and \<open>connect\<close> is called with
  port NaN; a controller that is not connected records NaN as last port and logs no
  warning.
\<close>

theorem join_nan_port:
  "h \<noteq> [] \<and> a \<noteq> [] \<and> CHR ''.'' \<notin> set a \<and> no_leading_digit a \<longrightarrow>
     parseInt a = NaN \<and>
     cmd_join e (h # a # rest) w =
       connect e (Some h) (Some NaN) (if truthy (arg rest 0) then arg rest 0 else None) w \<and>
     (\<not> connected (ctl w) \<longrightarrow>
        lastPort (ctl (snd (cmd_join e (h # a # rest) w))) = Some NaN \<and>
        logged Warn (trace (snd (cmd_join e (h # a # rest) w))) = logged Warn (trace w))"
proof (intro impI, elim conjE)
  assume h: "h \<noteq> []" and a: "a \<noteq> []" and dot: "CHR ''.'' \<notin> set a" and nd: "no_leading_digit a"
  have nan: "parseInt a = NaN" using nd by (rule parseInt_NaN)
  have call: "cmd_join e (h # a # rest) w =
       connect e (Some h) (Some NaN) (if truthy (arg rest 0) then arg rest 0 else None) w"
    using h a dot nan
    by (simp add: cmd_join_def join_target_def arg_def truthy_def str_includes_dot)
  have "truthy (Some h)" using h by (simp add: truthy_def)
  then show "parseInt a = NaN \<and>
     cmd_join e (h # a # rest) w =
       connect e (Some h) (Some NaN) (if truthy (arg rest 0) then arg rest 0 else None) w \<and>
     (\<not> connected (ctl w) \<longrightarrow>
        lastPort (ctl (snd (cmd_join e (h # a # rest) w))) = Some NaN \<and>
        logged Warn (trace (snd (cmd_join e (h # a # rest) w))) = logged Warn (trace w))"
    using nan call connect_last_port by simp
qed

theorem join_nan_port_witness:
  "''host'' \<noteq> [] \<and> ''abc'' \<noteq> [] \<and> CHR ''.'' \<notin> set ''abc'' \<and> no_leading_digit ''abc'' \<and>
   \<not> connected (ctl init) \<and> parseInt ''abc'' = NaN \<and>
   lastPort (ctl (snd (cmd_join quiet [''host'', ''abc''] init))) = Some NaN \<and>
   lastPort (ctl (snd (handleCommand quiet ''join host abc'' init))) = Some NaN \<and>
   calls_of (trace (snd (handleCommand quiet ''join host abc'' init))) =
     [CreateBot (Some ''host'') (Some NaN) None, LoadPlugin 0]"
proof -
  have ex: "snd (handleCommand quiet ''join host abc'' init) =
      init\<lparr>ctl := (ctl init)\<lparr>bot := Some 0, lastHost := Some ''host'', lastPort := Some NaN,
                lastVersion := None\<rparr>,
           subs := (\<lambda>h. {})(0 := all_listeners), next_handle := 1,
           trace := [Log Info (M_connecting (Some ''host'') (Some NaN) None),
                     Call (CreateBot (Some ''host'') (Some NaN) None),
                     Call (LoadPlugin 0)]\<rparr>"
    by (simp add: evaluation)
  have hyp: "no_leading_digit ''abc''"
    by (simp add: no_leading_digit_def after_sign_def is_ws_def digit_val_def)
  have nc: "\<not> connected (ctl init)"
    by (simp add: init_def)
  have p1: "lastPort (ctl (snd (handleCommand quiet ''join host abc'' init))) = Some NaN"
    unfolding ex by (simp add: init_def)
  have p2: "calls_of (trace (snd (handleCommand quiet ''join host abc'' init))) =
     [CreateBot (Some ''host'') (Some NaN) None, LoadPlugin 0]"
    unfolding ex by (simp add: init_def)
  show ?thesis
    using join_nan_port [of "''host''" "''abc''" quiet "[]" init] hyp nc p1 p2
    by auto
qed

text \<open>
  A token with a sign does not start with a digit and is parsed as a number; and a
  connected controller refuses the \<open>join\<close> and records nothing.
\<close>

theorem join_signed_port_counterexample:
  "\<not> str_includes ''-5'' ''.'' \<and> digit_val 10 (CHR ''-'') = None \<and>
   parseInt ''-5'' = Num (- 5) \<and>
   lastPort (ctl (snd (handleCommand quiet ''join host -5'' init))) = Some (Num (- 5)) \<and>
   connected (ctl online_example) \<and>
   lastPort (ctl (snd (handleCommand quiet ''join host abc'' online_example))) = Some (Num 25565)"
  by (simp add: evaluation online_example_eq)

section \<open>The autoreconnect command\<close>

text \<open>
  C9: the \<open>autoreconnect\<close> command sets the flag to true exactly when its first argument,
  lower-cased, is \<open>true\<close>; every other non-empty argument sets it to false and is
  answered with the info entry, not with a warning; the usage warning is logged, and the
  flag left alone, when the first argument is missing (or empty).
\<close>

theorem autoreconnect_flag:
  "(\<not> truthy (arg args 0) \<longrightarrow>
      run_command e Autoreconnect args w = (Done, w\<lparr>trace := trace w @ [Log Warn M_usage_autoreconnect]\<rparr>)) \<and>
   (arg args 0 = Some a \<and> a \<noteq> [] \<longrightarrow>
      run_command e Autoreconnect args w =
        (Done, w\<lparr>ctl := (ctl w)\<lparr>autoReconnect := (toLowerCase a = ''true'')\<rparr>,
                 trace := trace w @ [Log Info (M_auto_reconnect (toLowerCase a = ''true''))]\<rparr>))"
  by (auto simp add: run_command_def cmd_autoreconnect_def truthy_def setAutoReconnect_def log_def
      split: option.splits)

theorem autoreconnect_flag_witness:
  "\<not> truthy (arg [] 0) \<and>
   run_command quiet Autoreconnect [] online_example =
     (Done, online_example\<lparr>trace := trace online_example @ [Log Warn M_usage_autoreconnect]\<rparr>) \<and>
   arg [''TrUe''] 0 = Some ''TrUe'' \<and>
   autoReconnect (ctl (snd (run_command quiet Autoreconnect [''TrUe''] init))) \<and>
   \<not> autoReconnect (ctl (snd (run_command quiet Autoreconnect [''yes''] online_example))) \<and>
   \<not> autoReconnect (ctl (snd (run_command quiet Autoreconnect [''1''] online_example))) \<and>
   \<not> autoReconnect (ctl (snd (run_command quiet Autoreconnect [''on''] online_example))) \<and>
   logged Warn (trace (snd (run_command quiet Autoreconnect [''on''] online_example))) = []"
  using autoreconnect_flag [of "[]" quiet online_example "''x''"]
    autoreconnect_flag [of "[''TrUe'']" quiet init "''TrUe''"]
    autoreconnect_flag [of "[''yes'']" quiet online_example "''yes''"]
    autoreconnect_flag [of "[''1'']" quiet online_example "''1''"]
    autoreconnect_flag [of "[''on'']" quiet online_example "''on''"]
  by (simp add: arg_def truthy_def lower_true online_example_eq)

section \<open>The dispatcher\<close>




section \<open>A connect call that nothing settles\<close>

text \<open>
  A handle without listeners stays without listeners, and its call stays unresolved,
  whatever happens next: a later \<open>connect\<close> makes a new handle, and only a listener of
  a handle resolves the call that made it.
\<close>

lemma and_then_cleanup: "and_then (cleanup e w) k = k (snd (cleanup e w))"
  by (simp add: and_then_def cleanup_def Let_def)

lemma abandoned_log: "abandoned h (log l m w) = abandoned h w"
  by (simp add: abandoned_def log_def)

lemma abandoned_cleanup: "abandoned h w \<Longrightarrow> abandoned h (snd (cleanup e w))"
  by (simp add: abandoned_def cleanup_def ext_def Let_def split: option.splits)

lemma abandoned_tryReconnect: "abandoned h w \<Longrightarrow> abandoned h (snd (tryReconnect w))"
  by (simp add: abandoned_def tryReconnect_def log_def)

lemma abandoned_connect:
  "abandoned h w \<Longrightarrow> abandoned h (snd (connect e host port version w))"
  by (simp add: abandoned_def connect_def log_def ext_def Let_def split: option.splits)

lemma abandoned_disconnect: "abandoned h w \<Longrightarrow> abandoned h (snd (disconnect e w))"
proof (cases "bot (ctl w)")
  case None
  assume "abandoned h w"
  with None show ?thesis by (simp add: disconnect_def abandoned_log)
next
  case (Some b)
  assume a: "abandoned h w"
  then have q: "abandoned h (snd (ext e (Quit b) w))"
    by (simp add: abandoned_def ext_def)
  show ?thesis
  proof (cases "throws e (Quit b)")
    case None
    with Some a q show ?thesis
      using abandoned_cleanup [OF q, of e]
      by (simp add: disconnect_def ext_def and_then_cleanup abandoned_log)
  next
    case (Some err)
    with \<open>bot (ctl w) = Some b\<close> a q show ?thesis
      by (simp add: disconnect_def ext_def abandoned_log)
  qed
qed

lemma abandoned_say: "abandoned h w \<Longrightarrow> abandoned h (snd (say e m w))"
  by (simp add: abandoned_def say_def log_def ext_def split: option.splits)

lemma abandoned_query: "abandoned h w \<Longrightarrow> abandoned h (snd (query e t w))"
  by (simp add: abandoned_def query_def log_def ext_def Let_def split: option.splits)

lemma abandoned_lookAt: "abandoned h w \<Longrightarrow> abandoned h (snd (lookAt e x y z w))"
  by (simp add: abandoned_def lookAt_def log_def ext_def split: option.splits)

lemma abandoned_goto: "abandoned h w \<Longrightarrow> abandoned h (snd (goto e x y z w))"
  by (simp add: abandoned_def goto_def log_def ext_def split: option.splits)

lemma abandoned_autoreconnect:
  "abandoned h w \<Longrightarrow> abandoned h (snd (cmd_autoreconnect args w))"
  by (simp add: abandoned_def cmd_autoreconnect_def setAutoReconnect_def log_def
      split: option.splits)

lemma abandoned_join: "abandoned h w \<Longrightarrow> abandoned h (snd (cmd_join e args w))"
  by (simp add: cmd_join_def abandoned_connect abandoned_log)

lemma abandoned_run_command:
  "abandoned h w \<Longrightarrow> abandoned h (snd (run_command e c args w))"
proof (cases c)
  case Exit
  assume "abandoned h w"
  with Exit show ?thesis by (simp add: run_command_def exit_process_def abandoned_def)
next
  case Clear
  assume "abandoned h w"
  with Clear show ?thesis by (simp add: run_command_def abandoned_def)
next
  case Help
  assume "abandoned h w"
  with Help show ?thesis by (simp add: run_command_def abandoned_def)
qed (simp_all add: run_command_def abandoned_join abandoned_disconnect abandoned_say
       abandoned_query abandoned_lookAt abandoned_goto abandoned_autoreconnect)

lemma abandoned_caught: "abandoned h (snd r) \<Longrightarrow> abandoned h (snd (caught r))"
  by (cases r) (simp add: caught_def abandoned_log split: completion.splits)

lemma abandoned_handleCommand:
  "abandoned h w \<Longrightarrow> abandoned h (snd (handleCommand e l w))"
  by (simp add: handleCommand_def abandoned_caught abandoned_run_command abandoned_log
      split: list.splits binding.splits)

lemma abandoned_uncaught: "abandoned h w \<Longrightarrow> abandoned h (uncaughtException f w)"
  by (simp add: uncaughtException_def abandoned_def log_def split: sum.splits)

lemma abandoned_unhandled: "abandoned h w \<Longrightarrow> abandoned h (unhandledRejection f w)"
  by (simp add: unhandledRejection_def abandoned_log abandoned_uncaught split: sum.splits)

lemma abandoned_escaped: "abandoned h (snd r) \<Longrightarrow> abandoned h (escaped r)"
  by (cases r) (simp add: escaped_def abandoned_uncaught split: completion.splits)

lemma abandoned_fire_timer: "abandoned h w \<Longrightarrow> abandoned h (fire_timer e w)"
proof (cases "timers w")
  case Nil
  assume "abandoned h w"
  with Nil show ?thesis by (simp add: fire_timer_def)
next
  case (Cons t ts)
  assume "abandoned h w"
  then have "abandoned h (w\<lparr>timers := ts\<rparr>)" by (simp add: abandoned_def)
  then have a: "abandoned h (snd (connect e (lastHost (ctl w)) (lastPort (ctl w))
                  (lastVersion (ctl w)) (w\<lparr>timers := ts\<rparr>)))"
    by (rule abandoned_connect)
  obtain c w1 where c: "connect e (lastHost (ctl w)) (lastPort (ctl w)) (lastVersion (ctl w))
                  (w\<lparr>timers := ts\<rparr>) = (c, w1)"
    by (cases "connect e (lastHost (ctl w)) (lastPort (ctl w)) (lastVersion (ctl w))
                  (w\<lparr>timers := ts\<rparr>)")
  with a have "abandoned h w1" by simp
  with Cons c show ?thesis
    by (simp add: fire_timer_def abandoned_unhandled split: completion.splits)
qed

lemma abandoned_cleanup_then:
  "abandoned h w \<Longrightarrow> abandoned h (snd (and_then (cleanup e w) tryReconnect))"
  by (simp add: and_then_cleanup abandoned_cleanup abandoned_tryReconnect)

lemma abandoned_resolve_other:
  "abandoned h w \<Longrightarrow> h' \<noteq> h \<Longrightarrow> abandoned h (w\<lparr>resolved := insert h' (resolved w)\<rparr>)"
  by (simp add: abandoned_def)

lemma abandoned_handleError:
  assumes "abandoned h w" and "h' \<noteq> h"
  shows "abandoned h (snd (handleError e h' f w))"
proof -
  have a: "\<And>v. abandoned h v \<Longrightarrow>
      abandoned h (snd (and_then (cleanup e v)
                          (\<lambda>w1. (Done, w1\<lparr>resolved := insert h' (resolved w1)\<rparr>))))"
    using assms(2) by (simp add: and_then_cleanup abandoned_cleanup abandoned_resolve_other)
  from assms(1) a show ?thesis
    by (simp add: handleError_def abandoned_log split: sum.splits)
qed

lemma abandoned_emit: "abandoned h w \<Longrightarrow> abandoned h (emit e h' ev w)"
proof (cases "h' = h")
  case True
  assume a: "abandoned h w"
  then have "ename_of ev \<notin> subs w h'" using True by (simp add: abandoned_def)
  with a show ?thesis
    by (simp add: emit_def abandoned_uncaught split: event.splits)
next
  case False
  assume a: "abandoned h w"
  show ?thesis
  proof (cases "ename_of ev \<in> subs w h'")
    case False
    with a show ?thesis
      by (simp add: emit_def abandoned_uncaught split: event.splits)
  next
    case True
    show ?thesis
    proof (cases ev)
      case Spawn
      from a \<open>h' \<noteq> h\<close>
      have "abandoned h (snd (on_spawn h' (w\<lparr>subs := (subs w)(h' := subs w h' - {On_spawn})\<rparr>)))"
        by (simp add: on_spawn_def log_def abandoned_def)
      with Spawn True show ?thesis
        by (simp add: emit_def abandoned_escaped)
    next
      case (ChatEv u m)
      from a have "abandoned h (snd (on_chat e h' u m w))"
        by (simp add: on_chat_def abandoned_log)
      with ChatEv True show ?thesis
        by (simp add: emit_def abandoned_escaped)
    next
      case (Message m)
      from a have "abandoned h (snd (on_message m w))"
        by (simp add: on_message_def abandoned_log)
      with Message True show ?thesis
        by (simp add: emit_def abandoned_escaped)
    next
      case (Kicked r)
      from a have "abandoned h (snd (on_kicked e r w))"
        by (simp add: on_kicked_def abandoned_cleanup_then abandoned_log)
      with Kicked True show ?thesis
        by (simp add: emit_def abandoned_escaped)
    next
      case (ErrorEv f)
      from a \<open>h' \<noteq> h\<close> have "abandoned h (snd (handleError e h' f w))"
        by (rule abandoned_handleError)
      with ErrorEv True show ?thesis
        by (simp add: emit_def abandoned_escaped)
    next
      case End
      from a have "abandoned h (snd (on_end e w))"
        by (simp add: on_end_def abandoned_cleanup_then abandoned_log)
      with End True show ?thesis
        by (simp add: emit_def abandoned_escaped)
    qed
  qed
qed

lemma abandoned_step: "abandoned h w \<Longrightarrow> abandoned h (step e s w)"
proof (cases s)
  case Sigint
  assume a: "abandoned h w"
  obtain c w1 where d: "disconnect e w = (c, w1)" by (cases "disconnect e w")
  with a have "abandoned h w1" using abandoned_disconnect [of h w e] by simp
  then have x: "abandoned h (w1\<lparr>exited := True\<rparr>)"
    by (simp add: abandoned_def)
  from \<open>abandoned h w1\<close> have "abandoned h (uncaughtException f w1)" for f
    by (rule abandoned_uncaught)
  with x Sigint d show ?thesis
    by (simp add: step_def split: completion.splits)
qed (simp_all add: step_def abandoned_handleCommand abandoned_emit abandoned_fire_timer
       abandoned_unhandled abandoned_uncaught)

lemma abandoned_run: "abandoned h w \<Longrightarrow> abandoned h (run e ss w)"
  by (induction ss arbitrary: w) (simp_all add: abandoned_step)

lemma no_listeners_upd: "(\<lambda>h. {})(k := {}) = (\<lambda>h. {})"
  by (simp add: fun_eq_iff)

lemma connecting_example_ended:
  "emit quiet 0 End connecting_example =
     connecting_example
       \<lparr>ctl := (ctl connecting_example)\<lparr>bot := None\<rparr>,
        subs := (\<lambda>h. {}),
        trace := trace connecting_example @ [Call (RemoveAllListeners 0)]\<rparr>"
  by (simp add: connecting_example_eq quiet_def emit_def ename_of_def all_listeners_def
      escaped_def on_end_def cleanup_def ext_def and_then_def tryReconnect_def
      no_listeners_upd)

text \<open>
  C2 asks that a connect attempt be bounded by a timeout and resolve as failed when no
  terminal outcome arrives. At \<open>join a.example\<close> followed by the \<open>end\<close> event of the new
  handle, before any \<open>spawn\<close> or \<open>error\<close> event, the code does this instead: \<open>connect\<close>
  has set no timer, the \<open>end\<close> listener detaches every listener and leaves the
  controller disconnected with no timer pending, and the call is not resolved then nor
  after any further sequence of input lines, events, timer firings, faults and
  interrupts, whatever the agent client answers.
\<close>

theorem connect_never_settles_after_end:
  "fst (connect quiet (Some ''a.example'') (Some (Num 25565)) None init) = Awaiting 0 \<and>
   timers connecting_example = [] \<and>
   state_of (ctl (emit quiet 0 End connecting_example)) = Disconnected \<and>
   timers (emit quiet 0 End connecting_example) = [] \<and>
   0 \<notin> resolved (run e ss (emit quiet 0 End connecting_example))"
proof -
  have "abandoned 0 (emit quiet 0 End connecting_example)"
    unfolding connecting_example_ended
    by (simp add: abandoned_def connecting_example_eq)
  then have "abandoned 0 (run e ss (emit quiet 0 End connecting_example))"
    by (rule abandoned_run)
  then have r: "0 \<notin> resolved (run e ss (emit quiet 0 End connecting_example))"
    by (simp add: abandoned_def)
  have c: "fst (connect quiet (Some ''a.example'') (Some (Num 25565)) None init) = Awaiting 0"
    by (simp add: init_def quiet_def connect_def log_def ext_def truthy_def)
  have s: "state_of (ctl (emit quiet 0 End connecting_example)) = Disconnected"
    "timers (emit quiet 0 End connecting_example) = []"
    "timers connecting_example = []"
    unfolding connecting_example_ended
    by (simp_all add: connecting_example_eq state_of_def)
  from c s r show ?thesis by simp
qed

end
